theory Spec2Isabelle
  imports Main "HOL-Library.Sublist"
begin

section \<open>Values of the script\<close>

text \<open>
  The script \<^verbatim>\<open>agent.py\<close> handles Python strings, the values that \<^verbatim>\<open>json.loads\<close>
  returns, and dictionaries built from them. A Python \<^verbatim>\<open>str\<close> is a \<open>string\<close>, one
  \<open>char\<close> for each character of the text. A JSON value is a \<open>json\<close>; a number is kept as the
  text that Python prints for it, since none of the script's decisions reads a number.
  A \<^verbatim>\<open>dict\<close> is an association list in insertion order.
\<close>

datatype json =
    JNull
  | JBool bool
  | JNumber string
  | JString string
  | JArray "json list"
  | JObject "(string \<times> json) list"

text \<open>The exceptions that the script and the libraries it calls can raise.\<close>

datatype exn =
    KeyError string
  | IndexError
  | TypeError
  | AttributeError
  | ValueError string
  | RequestException string
  | HTTPError nat
  | JSONDecodeError string
  | SMTPException string
  | FeedException string

section \<open>JSON Extractor: \<^verbatim>\<open>safe_extract_json\<close>\<close>

text \<open>
  \<^verbatim>\<open>text.find("{")\<close> and \<^verbatim>\<open>text.rfind("}")\<close>: the lowest and the highest index of a
  one-character needle, or \<open>-1\<close> when the text does not hold it.
\<close>

fun str_find :: "string \<Rightarrow> char \<Rightarrow> int" where
  "str_find [] c = - 1"
| "str_find (x # xs) c =
     (if x = c then 0
      else (let r = str_find xs c in if r = - 1 then - 1 else r + 1))"

fun str_rfind :: "string \<Rightarrow> char \<Rightarrow> int" where
  "str_rfind [] c = - 1"
| "str_rfind (x # xs) c =
     (let r = str_rfind xs c in
      if r \<noteq> - 1 then r + 1 else if x = c then 0 else - 1)"

text \<open>
  A Python slice \<^verbatim>\<open>xs[i:j]\<close>: a negative bound counts from the end, every bound is clamped
  to the sequence, and a slice whose upper bound is not above its lower bound is empty.
\<close>

definition slice_bound :: "nat \<Rightarrow> int \<Rightarrow> nat" where
  "slice_bound n i = (if i < 0 then nat (int n + i) else min (nat i) n)"

definition py_slice :: "'a list \<Rightarrow> int \<Rightarrow> int \<Rightarrow> 'a list" where
  "py_slice xs i j =
     (let lo = slice_bound (length xs) i; hi = slice_bound (length xs) j
      in take (hi - lo) (drop lo xs))"

text \<open>
  The dictionary that \<^verbatim>\<open>safe_extract_json\<close> returns has one of two shapes:
  \<^verbatim>\<open>{"ok": True, "report": v}\<close> or \<^verbatim>\<open>{"ok": False, "raw": text, "error": msg}\<close>.
\<close>

datatype extraction =
    Success (get_report: json)
  | Failure (get_raw: string) (get_error: string)

fun ok :: "extraction \<Rightarrow> bool" where
  "ok (Success v) = True"
| "ok (Failure r e) = False"

text \<open>
  \<^verbatim>\<open>json.loads\<close> is the standard library's parser, not code of the script, so it is a
  parameter: \<open>Inr v\<close> is the parsed value, \<open>Inl m\<close> an exception whose text is \<open>m\<close>.
  The handler \<^verbatim>\<open>except Exception as e\<close> catches every such exception.
\<close>

type_synonym json_parser = "string \<Rightarrow> string + json"

definition safe_extract_json :: "json_parser \<Rightarrow> string \<Rightarrow> extraction" where
  \<open>safe_extract_json json_loads text =
     (let start = str_find text CHR ''{'';
          end = str_rfind text CHR ''}''
      in if start = - 1 \<or> end = - 1
         then Failure text ''No JSON detected''
         else (case json_loads (py_slice text start (end + 1)) of
                 Inr v \<Rightarrow> Success v
               | Inl e \<Rightarrow> Failure text (''JSON parse failed: '' @ e)))\<close>

text \<open>What it means for \<open>i\<close> to be the first, and for \<open>j\<close> to be the last, index of a character.\<close>

definition first_index :: "string \<Rightarrow> char \<Rightarrow> nat \<Rightarrow> bool" where
  "first_index xs c i = (i < length xs \<and> xs ! i = c \<and> c \<notin> set (take i xs))"

definition last_index :: "string \<Rightarrow> char \<Rightarrow> nat \<Rightarrow> bool" where
  "last_index xs c j = (j < length xs \<and> xs ! j = c \<and> c \<notin> set (drop (Suc j) xs))"

section \<open>Python helpers shared by the components\<close>

text \<open>\<^verbatim>\<open>sep.join(parts)\<close>.\<close>

definition join :: "'a list \<Rightarrow> 'a list list \<Rightarrow> 'a list" where
  "join sep parts = (case parts of [] \<Rightarrow> [] | p # ps \<Rightarrow> p @ concat (map (\<lambda>q. sep @ q) ps))"

text \<open>A run of the script is a sequence of calls into the outside world; the trace keeps them.\<close>

record email =
  smtp_host :: string
  smtp_port :: int
  smtp_user :: string
  smtp_pass :: string
  from_email :: string
  to_email :: string
  subject :: json
  body :: json

datatype event =
    FeedParse string
  | Generate string
  | HttpPost string json nat
  | SendEmail json json
  | Delivered email

text \<open>
  A statement of the script either returns a value or raises, and appends its calls to the
  trace. An exception that no handler catches ends the run there.
\<close>

type_synonym 'a io = "event list \<Rightarrow> (exn + 'a) \<times> event list"

definition io_return :: "'a \<Rightarrow> 'a io" where
  "io_return x t = (Inr x, t)"

definition io_raise :: "exn \<Rightarrow> 'a io" where
  "io_raise ex t = (Inl ex, t)"

definition io_lift :: "exn + 'a \<Rightarrow> 'a io" where
  "io_lift r t = (r, t)"

definition io_log :: "event \<Rightarrow> unit io" where
  "io_log ev t = (Inr (), t @ [ev])"

definition io_bind :: "'a io \<Rightarrow> ('a \<Rightarrow> 'b io) \<Rightarrow> 'b io" where
  "io_bind m f t = (case m t of (Inl ex, t') \<Rightarrow> (Inl ex, t') | (Inr x, t') \<Rightarrow> f x t')"

text \<open>The result of \<^verbatim>\<open>feedparser.parse\<close>: the entries, each a bag of attributes, and the
  flag \<^verbatim>\<open>bozo\<close> that the library sets when the feed was not fetched or parsed cleanly.\<close>

type_synonym entry = "(string \<times> string) list"

record feed =
  bozo :: bool
  entries :: "entry list"

text \<open>The result of \<^verbatim>\<open>requests.post\<close>: the status and what \<^verbatim>\<open>r.json()\<close> gives.\<close>

record response =
  status_code :: nat
  json_body :: "string + json"

text \<open>The local time that \<^verbatim>\<open>datetime.now(SL_TZ)\<close> returns.\<close>

record datetime =
  year :: nat
  month :: nat
  day :: nat
  hour :: nat
  minute :: nat
  second :: nat

text \<open>
  Everything outside the script: the process environment, the libraries that reach the
  network, the clock, and the two parsers of the standard library. \<open>requests_post\<close> is given
  the number of earlier requests of the run, so that two requests may be answered differently.
\<close>

record world =
  environ :: "string \<Rightarrow> string option"
  feedparser_parse :: "string \<Rightarrow> exn + feed"
  requests_post :: "nat \<Rightarrow> string \<Rightarrow> json \<Rightarrow> exn + response"
  json_loads :: json_parser
  int_of_str :: "string \<Rightarrow> exn + int"
  datetime_now :: datetime
  smtp_sendmail :: "email \<Rightarrow> exn option"

text \<open>\<^verbatim>\<open>os.environ[k]\<close> raises on a name that is not set; \<^verbatim>\<open>os.getenv(k, d)\<close> and
  \<^verbatim>\<open>os.environ.get(k, d)\<close> return \<open>d\<close> there.\<close>

definition environ_item :: "world \<Rightarrow> string \<Rightarrow> exn + string" where
  "environ_item w k = (case environ w k of None \<Rightarrow> Inl (KeyError k) | Some v \<Rightarrow> Inr v)"

definition getenv :: "world \<Rightarrow> string \<Rightarrow> string \<Rightarrow> string" where
  "getenv w k d = (case environ w k of None \<Rightarrow> d | Some v \<Rightarrow> v)"

section \<open>\<^verbatim>\<open>json.dumps\<close> with \<^verbatim>\<open>ensure_ascii=False\<close>\<close>

definition hex_digit :: "nat \<Rightarrow> char" where
  "hex_digit n = ''0123456789abcdef'' ! (n mod 16)"

definition hex4 :: "nat \<Rightarrow> string" where
  "hex4 n = [hex_digit (n div 4096), hex_digit (n div 256), hex_digit (n div 16), hex_digit n]"

definition escape_char :: "char \<Rightarrow> string" where
  \<open>escape_char c =
     (if c = CHR 0x5C then [CHR 0x5C, CHR 0x5C]
      else if c = CHR ''"'' then [CHR 0x5C, CHR ''"'']
      else if c = CHR 0x08 then [CHR 0x5C, CHR ''b'']
      else if c = CHR 0x0C then [CHR 0x5C, CHR ''f'']
      else if c = CHR 0x0A then [CHR 0x5C, CHR ''n'']
      else if c = CHR 0x0D then [CHR 0x5C, CHR ''r'']
      else if c = CHR 0x09 then [CHR 0x5C, CHR ''t'']
      else if (of_char c :: nat) < 32 then [CHR 0x5C, CHR ''u''] @ hex4 (of_char c)
      else [c])\<close>

definition encode_basestring :: "string \<Rightarrow> string" where
  \<open>encode_basestring s = ''"'' @ concat (map escape_char s) @ ''"''\<close>

fun json_dumps :: "json \<Rightarrow> string" where
  "json_dumps JNull = ''null''"
| "json_dumps (JBool b) = (if b then ''true'' else ''false'')"
| "json_dumps (JNumber r) = r"
| "json_dumps (JString s) = encode_basestring s"
| "json_dumps (JArray xs) = ''['' @ join '', '' (map json_dumps xs) @ '']''"
| "json_dumps (JObject kvs) =
     ''{'' @ join '', '' (map (\<lambda>(k, v). encode_basestring k @ '': '' @ json_dumps v) kvs) @ ''}''"

text \<open>With \<^verbatim>\<open>indent=2\<close>: one item per line, two spaces for each level of nesting.\<close>

definition newline_indent :: "nat \<Rightarrow> string" where
  "newline_indent level = CHR 0x0A # replicate (2 * level) CHR '' ''"

fun json_dumps_indent :: "nat \<Rightarrow> json \<Rightarrow> string" where
  "json_dumps_indent level (JArray xs) =
     (if xs = [] then ''[]''
      else ''['' @ newline_indent (Suc level)
           @ join ('','' @ newline_indent (Suc level)) (map (json_dumps_indent (Suc level)) xs)
           @ newline_indent level @ '']'')"
| "json_dumps_indent level (JObject kvs) =
     (if kvs = [] then ''{}''
      else ''{'' @ newline_indent (Suc level)
           @ join ('','' @ newline_indent (Suc level))
               (map (\<lambda>(k, v). encode_basestring k @ '': '' @ json_dumps_indent (Suc level) v) kvs)
           @ newline_indent level @ ''}'')"
| "json_dumps_indent level v = json_dumps v"

section \<open>Feed Collector: \<^verbatim>\<open>fetch_rss\<close>\<close>

definition GOOGLE_TRENDS_DAILY_LK :: string where
  "GOOGLE_TRENDS_DAILY_LK = ''https://trends.google.com/trends/trendingsearches/daily/rss?geo=LK''"

definition GOOGLE_NEWS_LK :: string where
  "GOOGLE_NEWS_LK = ''https://news.google.com/rss?hl=en-LK&gl=LK&ceid=LK:en''"

text \<open>\<^verbatim>\<open>getattr(e, name, default)\<close>.\<close>

definition getattr :: "entry \<Rightarrow> string \<Rightarrow> string \<Rightarrow> string" where
  "getattr e name d = (case map_of e name of None \<Rightarrow> d | Some v \<Rightarrow> v)"

definition feed_item :: "entry \<Rightarrow> json" where
  "feed_item e =
     JObject [(''title'', JString (getattr e ''title'' [])),
              (''link'', JString (getattr e ''link'' [])),
              (''published'', JString (getattr e ''published'' []))]"

text \<open>The function has no handler: what \<^verbatim>\<open>feedparser.parse\<close> raises, it raises.\<close>

definition fetch_rss :: "world \<Rightarrow> string \<Rightarrow> int \<Rightarrow> json list io" where
  "fetch_rss w url max_items =
     io_bind (io_log (FeedParse url)) (\<lambda>_.
     io_bind (io_lift (feedparser_parse w url)) (\<lambda>feed.
     io_return (map feed_item (py_slice (entries feed) 0 max_items))))"

section \<open>Report Generator: \<^verbatim>\<open>gemini_generate\<close>\<close>

text \<open>Subscription \<^verbatim>\<open>v[key]\<close> with a string and \<^verbatim>\<open>v[0]\<close>, on each kind of value.\<close>

fun getitem_str :: "json \<Rightarrow> string \<Rightarrow> exn + json" where
  "getitem_str (JObject kvs) k = (case map_of kvs k of None \<Rightarrow> Inl (KeyError k) | Some v \<Rightarrow> Inr v)"
| "getitem_str v k = Inl TypeError"

fun getitem_0 :: "json \<Rightarrow> exn + json" where
  "getitem_0 (JArray xs) = (case xs of [] \<Rightarrow> Inl IndexError | x # _ \<Rightarrow> Inr x)"
| "getitem_0 (JString s) = (case s of [] \<Rightarrow> Inl IndexError | c # _ \<Rightarrow> Inr (JString [c]))"
| "getitem_0 (JObject kvs) = Inl (KeyError ''0'')"
| "getitem_0 v = Inl TypeError"

definition exn_bind :: "exn + 'a \<Rightarrow> ('a \<Rightarrow> exn + 'b) \<Rightarrow> exn + 'b" where
  "exn_bind r f = (case r of Inl ex \<Rightarrow> Inl ex | Inr x \<Rightarrow> f x)"

text \<open>\<^verbatim>\<open>r.raise_for_status()\<close> raises on a status from 400 to 599.\<close>

definition raise_for_status :: "response \<Rightarrow> exn + unit" where
  "raise_for_status r =
     (if 400 \<le> status_code r \<and> status_code r < 600 then Inl (HTTPError (status_code r)) else Inr ())"

definition response_json :: "response \<Rightarrow> exn + json" where
  "response_json r = (case json_body r of Inl m \<Rightarrow> Inl (JSONDecodeError m) | Inr v \<Rightarrow> Inr v)"

definition posts_before :: "event list \<Rightarrow> nat" where
  "posts_before t = length (filter (\<lambda>ev. case ev of HttpPost _ _ _ \<Rightarrow> True | _ \<Rightarrow> False) t)"

definition post :: "world \<Rightarrow> string \<Rightarrow> json \<Rightarrow> nat \<Rightarrow> response io" where
  "post w url payload timeout t =
     (requests_post w (posts_before t) url payload, t @ [HttpPost url payload timeout])"

definition generate_url :: "string \<Rightarrow> string \<Rightarrow> string" where
  "generate_url model api_key =
     ''https://generativelanguage.googleapis.com/v1beta/models/'' @ model
     @ '':generateContent?key='' @ api_key"

definition generate_payload :: "string \<Rightarrow> json" where
  "generate_payload prompt =
     JObject
       [(''contents'', JArray [JObject [(''parts'', JArray [JObject [(''text'', JString prompt)]])]]),
        (''generationConfig'',
           JObject [(''temperature'', JNumber ''0.6''), (''maxOutputTokens'', JNumber ''2500'')])]"

text \<open>\<^verbatim>\<open>data["candidates"][0]["content"]["parts"][0]["text"]\<close>.\<close>

definition candidate_text :: "json \<Rightarrow> exn + json" where
  "candidate_text data =
     exn_bind (getitem_str data ''candidates'') (\<lambda>v1.
     exn_bind (getitem_0 v1) (\<lambda>v2.
     exn_bind (getitem_str v2 ''content'') (\<lambda>v3.
     exn_bind (getitem_str v3 ''parts'') (\<lambda>v4.
     exn_bind (getitem_0 v4) (\<lambda>v5.
     getitem_str v5 ''text'')))))"

definition gemini_generate :: "world \<Rightarrow> string \<Rightarrow> json io" where
  "gemini_generate w prompt =
     io_bind (io_log (Generate prompt)) (\<lambda>_.
     io_bind (io_lift (environ_item w ''GEMINI_API_KEY'')) (\<lambda>api_key.
     let model = getenv w ''GEMINI_MODEL'' ''gemini-1.5-flash'';
         url = generate_url model api_key;
         payload = generate_payload prompt
     in
     io_bind (post w url payload 60) (\<lambda>r.
     io_bind (io_lift (raise_for_status r)) (\<lambda>_.
     io_bind (io_lift (response_json r)) (\<lambda>data.
     io_lift (candidate_text data))))))"

section \<open>Notifier: \<^verbatim>\<open>send_email\<close>\<close>

definition send_email :: "world \<Rightarrow> json \<Rightarrow> json \<Rightarrow> unit io" where
  "send_email w subj bdy =
     io_bind (io_log (SendEmail subj bdy)) (\<lambda>_.
     io_bind (io_lift (environ_item w ''SMTP_HOST'')) (\<lambda>host.
     io_bind (io_lift (int_of_str w (getenv w ''SMTP_PORT'' ''587''))) (\<lambda>port.
     io_bind (io_lift (environ_item w ''SMTP_USER'')) (\<lambda>user.
     io_bind (io_lift (environ_item w ''SMTP_PASS'')) (\<lambda>pass.
     io_bind (io_lift (environ_item w ''TO_EMAIL'')) (\<lambda>to.
     let msg = \<lparr>smtp_host = host, smtp_port = port, smtp_user = user, smtp_pass = pass,
                from_email = getenv w ''FROM_EMAIL'' user, to_email = to,
                subject = subj, body = bdy\<rparr>
     in (case smtp_sendmail w msg of
           Some ex \<Rightarrow> io_raise ex
         | None \<Rightarrow> io_log (Delivered msg))))))))"

section \<open>Prompt Builder: \<^verbatim>\<open>build_prompt\<close>\<close>

fun decimal :: "nat \<Rightarrow> string" where
  "decimal n =
     (if n < 10 then [char_of (48 + n)] else decimal (n div 10) @ [char_of (48 + n mod 10)])"

definition zero_pad :: "nat \<Rightarrow> nat \<Rightarrow> string" where
  "zero_pad width n = replicate (width - length (decimal n)) CHR ''0'' @ decimal n"

text \<open>\<^verbatim>\<open>strftime("%Y-%m-%d")\<close>.\<close>

definition strftime_ymd :: "datetime \<Rightarrow> string" where
  "strftime_ymd d = zero_pad 4 (year d) @ ''-'' @ zero_pad 2 (month d) @ ''-'' @ zero_pad 2 (day d)"

text \<open>The text of the template before and after the first \<^verbatim>\<open>{today}\<close>.\<close>

definition PROMPT_HEAD :: string where
  \<open>PROMPT_HEAD = ''
You are a Sri Lanka trend analyst and marketing strategist.

Brands
Group A combined: Studio Nalini + Nalini e shop
Group B separate: Nalini book shop

Goal
Create a Monday report of trends to follow for the coming week in Sri Lanka.

Scoring each trend 0 to 25
Growth 0-5
Sri Lanka relevance 0-5
Brand fit 0-5
Feasibility 0-5 (phone-friendly content)
Risk 0-5 (5 is safest)
Only FOLLOW if total >= 18
Avoid politics, tragedy, hate, misinformation.

Output ONLY valid JSON with this schema:
{
  "date": "''\<close>

definition PROMPT_SCHEMA :: string where
  \<open>PROMPT_SCHEMA = ''",
  "summary": "",
  "trends": [
    {
      "name": "",
      "why_trending": "",
      "signals": "",
      "score": {"growth":0,"sl_relevance":0,"brand_fit":0,"feasibility":0,"risk":0,"total":0},
      "decision": "FOLLOW or SKIP",
      "groupA_campaign": {
        "big_idea": "",
        "post_ideas": ["","",""],
        "video_ideas": [
          {"hook":"","plot":"","script":"","shot_list":["","",""],"caption":"","hashtags":""},
          {"hook":"","plot":"","script":"","shot_list":["","",""],"caption":"","hashtags":""}
        ],
        "weekly_calendar": [
          {"day":"Mon","content":""}, {"day":"Tue","content":""}, {"day":"Wed","content":""},
          {"day":"Thu","content":""}, {"day":"Fri","content":""}, {"day":"Sat","content":""}, {"day":"Sun","content":""}
        ],
        "kpis": {"reach":"","saves":"","clicks":"","dm_inquiries":""}
      },
      "groupB_campaign": {
        "big_idea": "",
        "post_ideas": ["","",""],
        "video_ideas": [
          {"hook":"","plot":"","script":"","shot_list":["","",""],"caption":"","hashtags":""},
          {"hook":"","plot":"","script":"","shot_list":["","",""],"caption":"","hashtags":""}
        ],
        "weekly_calendar": [
          {"day":"Mon","content":""}, {"day":"Tue","content":""}, {"day":"Wed","content":""},
          {"day":"Thu","content":""}, {"day":"Fri","content":""}, {"day":"Sat","content":""}, {"day":"Sun","content":""}
        ],
        "kpis": {"reach":"","saves":"","store_visits":"","calls":""}
      }
    }
  ],
  "email_subject": "",
  "email_body": ""
}

Input signals:
''\<close>

definition build_prompt :: "datetime \<Rightarrow> json list \<Rightarrow> json list \<Rightarrow> string" where
  "build_prompt now trends_daily news =
     (let today = strftime_ymd now;
          input_blob = JObject [(''date'', JString today),
                                (''google_trends_lk_daily'', JArray trends_daily),
                                (''google_news_lk'', JArray news)]
      in PROMPT_HEAD @ today @ PROMPT_SCHEMA @ json_dumps input_blob @ [CHR 0x0A])"

section \<open>Orchestrator: \<^verbatim>\<open>main\<close>\<close>

text \<open>\<^verbatim>\<open>report.get(key, default)\<close>: only a dictionary has the method.\<close>

fun dict_get :: "json \<Rightarrow> string \<Rightarrow> json \<Rightarrow> exn + json" where
  "dict_get (JObject kvs) k d = Inr (case map_of kvs k of None \<Rightarrow> d | Some v \<Rightarrow> v)"
| "dict_get v k d = Inl AttributeError"

text \<open>The call \<^verbatim>\<open>safe_extract_json(raw)\<close> on what the generator returned: only a string has
  \<^verbatim>\<open>find\<close>.\<close>

fun extract_json :: "world \<Rightarrow> json \<Rightarrow> extraction io" where
  "extract_json w (JString txt) = io_return (safe_extract_json (json_loads w) txt)"
| "extract_json w v = io_raise AttributeError"

definition STRICT_PREFIX :: string where
  "STRICT_PREFIX = ''Return ONLY JSON. No markdown. No extra text.\<newline>\<newline>''"

definition main :: "world \<Rightarrow> unit io" where
  "main w =
     io_bind (fetch_rss w GOOGLE_TRENDS_DAILY_LK 40) (\<lambda>trends_daily.
     io_bind (fetch_rss w GOOGLE_NEWS_LK 30) (\<lambda>news.
     let prompt = build_prompt (datetime_now w) trends_daily news in
     io_bind (gemini_generate w prompt) (\<lambda>raw.
     io_bind (extract_json w raw) (\<lambda>parsed.
     io_bind (if \<not> ok parsed
              then (let strict_prompt = STRICT_PREFIX @ prompt in
                    io_bind (gemini_generate w strict_prompt) (\<lambda>raw2. extract_json w raw2))
              else io_return parsed) (\<lambda>parsed.
     if \<not> ok parsed
     then (let subj = ''Weekly Trend Agent ERROR (JSON parsing failed)'';
               bdy = ''Error: '' @ get_error parsed @ ''\<newline>\<newline>Raw output:\<newline>''
                     @ py_slice (get_raw parsed) 0 8000
           in send_email w (JString subj) (JString bdy))
     else (let report = get_report parsed in
           io_bind (io_lift (dict_get report ''email_subject''
                      (JString ''Weekly Sri Lanka Trend Report''))) (\<lambda>subj.
           io_bind (io_lift (dict_get report ''email_body''
                      (JString (json_dumps_indent 0 report)))) (\<lambda>bdy.
           send_email w subj bdy))))))))"

section \<open>A parser that meets the contract assumed of \<^verbatim>\<open>json.loads\<close>\<close>

text \<open>
  Two facts about \<^verbatim>\<open>json.loads\<close> are assumed where a property needs them: it rejects the
  empty text, and a text that starts with an opening brace parses, if at all, to an object.
  The recursive-descent parser below reads a subset of JSON (no \<^verbatim>\<open>\u\<close> escapes, no
  fractions or exponents) and has both properties; it instantiates the parameter wherever
  a property is evaluated on a concrete run.
\<close>

definition rejects_empty :: "json_parser \<Rightarrow> bool" where
  "rejects_empty loads = isl (loads [])"

definition is_object :: "json \<Rightarrow> bool" where
  "is_object v = (case v of JObject _ \<Rightarrow> True | _ \<Rightarrow> False)"

definition brace_gives_object :: "json_parser \<Rightarrow> bool" where
  "brace_gives_object loads = (\<forall>s v. loads (CHR ''{'' # s) = Inr v \<longrightarrow> is_object v)"

definition is_ws :: "char \<Rightarrow> bool" where
  "is_ws c = (c = CHR '' '' \<or> c = CHR 0x09 \<or> c = CHR 0x0A \<or> c = CHR 0x0D)"

fun skip_ws :: "string \<Rightarrow> string" where
  "skip_ws [] = []"
| "skip_ws (c # cs) = (if is_ws c then skip_ws cs else c # cs)"

definition unescape :: "char \<Rightarrow> char option" where
  \<open>unescape e =
     (if e = CHR ''"'' \<or> e = CHR 0x5C \<or> e = CHR ''/'' then Some e
      else if e = CHR ''b'' then Some (CHR 0x08)
      else if e = CHR ''f'' then Some (CHR 0x0C)
      else if e = CHR ''n'' then Some (CHR 0x0A)
      else if e = CHR ''r'' then Some (CHR 0x0D)
      else if e = CHR ''t'' then Some (CHR 0x09)
      else None)\<close>

fun scan_string :: "string \<Rightarrow> string \<Rightarrow> (string \<times> string) option" where
  "scan_string acc [] = None"
| \<open>scan_string acc (c # cs) =
     (if c = CHR ''"'' then Some (rev acc, cs)
      else if c = CHR 0x5C then
        (case cs of
           [] \<Rightarrow> None
         | e # cs' \<Rightarrow> (case unescape e of None \<Rightarrow> None | Some u \<Rightarrow> scan_string (u # acc) cs'))
      else if (of_char c :: nat) < 32 then None
      else scan_string (c # acc) cs)\<close>

definition is_digit :: "char \<Rightarrow> bool" where
  "is_digit c = (48 \<le> (of_char c :: nat) \<and> (of_char c :: nat) \<le> 57)"

definition scan_int :: "string \<Rightarrow> (string \<times> string) option" where
  "scan_int s =
     (let neg = (s \<noteq> [] \<and> hd s = CHR ''-'');
          r = (if neg then tl s else s);
          ds = takeWhile is_digit r;
          int_part = (if ds \<noteq> [] \<and> hd ds = CHR ''0'' then ''0'' else ds)
      in if ds = [] then None
         else Some (if neg \<and> int_part \<noteq> ''0'' then CHR ''-'' # int_part else int_part,
                    drop (length int_part) r))"

text \<open>A key that occurs twice keeps its first place and its last value, as in a \<^verbatim>\<open>dict\<close>.\<close>

fun dict_set :: "(string \<times> json) list \<Rightarrow> string \<Rightarrow> json \<Rightarrow> (string \<times> json) list" where
  "dict_set [] k v = [(k, v)]"
| "dict_set ((k', v') # kvs) k v = (if k' = k then (k, v) # kvs else (k', v') # dict_set kvs k v)"

definition starts_with :: "string \<Rightarrow> string \<Rightarrow> bool" where
  "starts_with s p = (take (length p) s = p)"

text \<open>The first argument bounds the number of nested calls: one text of \<open>n\<close> characters
  needs no more than \<open>n + 1\<close>.\<close>

fun parse_value :: "nat \<Rightarrow> string \<Rightarrow> (json \<times> string) option"
  and parse_elements :: "nat \<Rightarrow> json list \<Rightarrow> string \<Rightarrow> (json list \<times> string) option"
  and parse_members ::
    "nat \<Rightarrow> (string \<times> json) list \<Rightarrow> string \<Rightarrow> ((string \<times> json) list \<times> string) option"
where
  "parse_value 0 s = None"
| \<open>parse_value (Suc n) s =
     (case s of
        [] \<Rightarrow> None
      | c # r \<Rightarrow>
          if c = CHR ''{'' then
            (case skip_ws r of
               [] \<Rightarrow> None
             | c' # r' \<Rightarrow>
                 if c' = CHR ''}'' then Some (JObject [], r')
                 else (case parse_members n [] (c' # r') of
                         None \<Rightarrow> None
                       | Some (kvs, r'') \<Rightarrow> Some (JObject kvs, r'')))
          else if c = CHR ''['' then
            (case skip_ws r of
               [] \<Rightarrow> None
             | c' # r' \<Rightarrow>
                 if c' = CHR '']'' then Some (JArray [], r')
                 else (case parse_elements n [] (c' # r') of
                         None \<Rightarrow> None
                       | Some (xs, r'') \<Rightarrow> Some (JArray xs, r'')))
          else if c = CHR ''"'' then
            (case scan_string [] r of None \<Rightarrow> None | Some (str, r') \<Rightarrow> Some (JString str, r'))
          else if starts_with s ''null'' then Some (JNull, drop 4 s)
          else if starts_with s ''true'' then Some (JBool True, drop 4 s)
          else if starts_with s ''false'' then Some (JBool False, drop 5 s)
          else (case scan_int s of None \<Rightarrow> None | Some (num, r') \<Rightarrow> Some (JNumber num, r')))\<close>
| "parse_elements 0 acc s = None"
| \<open>parse_elements (Suc n) acc s =
     (case parse_value n s of
        None \<Rightarrow> None
      | Some (v, r) \<Rightarrow>
          (case skip_ws r of
             [] \<Rightarrow> None
           | c # r' \<Rightarrow>
               if c = CHR '','' then parse_elements n (acc @ [v]) (skip_ws r')
               else if c = CHR '']'' then Some (acc @ [v], r')
               else None))\<close>
| "parse_members 0 acc s = None"
| \<open>parse_members (Suc n) acc s =
     (case s of
        [] \<Rightarrow> None
      | q # r \<Rightarrow>
          if q \<noteq> CHR ''"'' then None
          else (case scan_string [] r of
                  None \<Rightarrow> None
                | Some (k, r1) \<Rightarrow>
                    (case skip_ws r1 of
                       [] \<Rightarrow> None
                     | c # r2 \<Rightarrow>
                         if c \<noteq> CHR '':'' then None
                         else (case parse_value n (skip_ws r2) of
                                 None \<Rightarrow> None
                               | Some (v, r3) \<Rightarrow>
                                   (case skip_ws r3 of
                                      [] \<Rightarrow> None
                                    | d # r4 \<Rightarrow>
                                        if d = CHR '','' then
                                          parse_members n (dict_set acc k v) (skip_ws r4)
                                        else if d = CHR ''}'' then Some (dict_set acc k v, r4)
                                        else None)))))\<close>

definition reference_loads :: json_parser where
  "reference_loads s =
     (case parse_value (Suc (length s)) (skip_ws s) of
        None \<Rightarrow> Inl ''Expecting value''
      | Some (v, r) \<Rightarrow> if skip_ws r = [] then Inr v else Inl ''Extra data'')"

section \<open>Observing a run\<close>

text \<open>The statements of \<^verbatim>\<open>main\<close> before the first call of the generator: both feeds are
  collected and the prompt is built.\<close>

definition collect_prompt :: "world \<Rightarrow> string io" where
  "collect_prompt w =
     io_bind (fetch_rss w GOOGLE_TRENDS_DAILY_LK 40) (\<lambda>trends_daily.
     io_bind (fetch_rss w GOOGLE_NEWS_LK 30) (\<lambda>news.
     io_return (build_prompt (datetime_now w) trends_daily news)))"

text \<open>The two endings of \<^verbatim>\<open>main\<close>: the debug email when \<^verbatim>\<open>parsed["ok"]\<close> is false after
  the attempts, the report email otherwise.\<close>

definition debug_email :: "world \<Rightarrow> extraction \<Rightarrow> unit io" where
  "debug_email w parsed =
     (let subj = ''Weekly Trend Agent ERROR (JSON parsing failed)'';
          bdy = ''Error: '' @ get_error parsed @ ''\<newline>\<newline>Raw output:\<newline>''
                @ py_slice (get_raw parsed) 0 8000
      in send_email w (JString subj) (JString bdy))"

definition report_email :: "world \<Rightarrow> extraction \<Rightarrow> unit io" where
  "report_email w parsed =
     (let report = get_report parsed in
      io_bind (io_lift (dict_get report ''email_subject''
                 (JString ''Weekly Sri Lanka Trend Report''))) (\<lambda>subj.
      io_bind (io_lift (dict_get report ''email_body''
                 (JString (json_dumps_indent 0 report)))) (\<lambda>bdy.
      send_email w subj bdy)))"

definition notify :: "world \<Rightarrow> extraction \<Rightarrow> unit io" where
  "notify w parsed = (if \<not> ok parsed then debug_email w parsed else report_email w parsed)"

text \<open>The prompts of the generator's calls, the calls of \<^verbatim>\<open>send_email\<close> and the messages that
  the mail server accepted, each in the order of the run.\<close>

fun generate_calls :: "event list \<Rightarrow> string list" where
  "generate_calls [] = []"
| "generate_calls (Generate p # t) = p # generate_calls t"
| "generate_calls (ev # t) = generate_calls t"

fun emails :: "event list \<Rightarrow> (json \<times> json) list" where
  "emails [] = []"
| "emails (SendEmail s b # t) = (s, b) # emails t"
| "emails (ev # t) = emails t"

fun delivered :: "event list \<Rightarrow> email list" where
  "delivered [] = []"
| "delivered (Delivered m # t) = m # delivered t"
| "delivered (ev # t) = delivered t"

text \<open>A world whose generation service answers from a script, for evaluating runs: each
  feed has the entries given, every variable of the environment is set, and the mail
  server accepts every message.\<close>

definition reply_text :: "string \<Rightarrow> exn + response" where
  "reply_text s =
     Inr \<lparr>status_code = 200,
          json_body = Inr (JObject [(''candidates'',
            JArray [JObject [(''content'',
              JObject [(''parts'', JArray [JObject [(''text'', JString s)]])])]])])\<rparr>"

text \<open>The same answer under another status.\<close>

definition reply_status_text :: "nat \<Rightarrow> string \<Rightarrow> exn + response" where
  "reply_status_text n s =
     Inr \<lparr>status_code = n,
          json_body = Inr (JObject [(''candidates'',
            JArray [JObject [(''content'',
              JObject [(''parts'', JArray [JObject [(''text'', JString s)]])])]])])\<rparr>"

definition reply_status :: "nat \<Rightarrow> exn + response" where
  "reply_status n = Inr \<lparr>status_code = n, json_body = Inl ''Expecting value''\<rparr>"

definition scripted_world :: "entry list \<Rightarrow> (exn + response) list \<Rightarrow> world" where
  "scripted_world es replies =
     \<lparr>environ = map_of [(''GEMINI_API_KEY'', ''k''), (''SMTP_HOST'', ''mail.example''),
                         (''SMTP_USER'', ''agent''), (''SMTP_PASS'', ''secret''),
                         (''TO_EMAIL'', ''owner@example'')],
      feedparser_parse = (\<lambda>url. Inr \<lparr>bozo = False, entries = es\<rparr>),
      requests_post = (\<lambda>n url payload.
         if n < length replies then replies ! n else Inl (RequestException ''timeout'')),
      json_loads = reference_loads,
      int_of_str = (\<lambda>s. if s = ''587'' then Inr 587 else Inl (ValueError s)),
      datetime_now = \<lparr>year = 2024, month = 3, day = 4, hour = 7, minute = 30, second = 0\<rparr>,
      smtp_sendmail = (\<lambda>m. None)\<rparr>"

text \<open>A world whose feed parser reports a fault, \<^verbatim>\<open>bozo\<close>, together with the two entries that
  it could read.\<close>

definition flagged_feed :: feed where
  "flagged_feed = \<lparr>bozo = True, entries = map (\<lambda>title. [(''title'', title)]) [''Storm'', ''Cricket'']\<rparr>"

definition flagged_feed_world :: world where
  "flagged_feed_world = (scripted_world [] [])\<lparr>feedparser_parse := (\<lambda>url. Inr flagged_feed)\<rparr>"

section \<open>Properties of the JSON Extractor\<close>

text \<open>\<open>str_find\<close> and \<open>str_rfind\<close> compute the first and the last index.\<close>

lemma str_find_nonneg: "- 1 \<le> str_find xs c"
  by (induction xs) (auto simp: Let_def)

lemma str_find_absent: "str_find xs c = - 1 \<longleftrightarrow> c \<notin> set xs"
proof (induction xs)
  case Nil then show ?case by simp
next
  case (Cons x xs)
  have "str_find xs c + 1 \<noteq> - 1" using str_find_nonneg[of xs c] by arith
  with Cons show ?case by (auto simp: Let_def)
qed

lemma str_rfind_nonneg: "- 1 \<le> str_rfind xs c"
  by (induction xs) (auto simp: Let_def)

lemma str_rfind_absent: "str_rfind xs c = - 1 \<longleftrightarrow> c \<notin> set xs"
proof (induction xs)
  case Nil then show ?case by simp
next
  case (Cons x xs)
  have "str_rfind xs c + 1 \<noteq> - 1" using str_rfind_nonneg[of xs c] by arith
  with Cons show ?case by (auto simp: Let_def)
qed

lemma str_find_first: "first_index xs c i \<Longrightarrow> str_find xs c = int i"
  unfolding first_index_def
proof (induction xs arbitrary: i)
  case Nil then show ?case by simp
next
  case (Cons x xs)
  show ?case
  proof (cases i)
    case 0 with Cons.prems show ?thesis by simp
  next
    case (Suc k)
    with Cons.prems have "k < length xs" "xs ! k = c" "c \<notin> set (take k xs)" "x \<noteq> c" by auto
    with Cons.IH[of k] Suc show ?thesis by (simp add: Let_def)
  qed
qed

lemma str_rfind_last: "last_index xs c j \<Longrightarrow> str_rfind xs c = int j"
  unfolding last_index_def
proof (induction xs arbitrary: j)
  case Nil then show ?case by simp
next
  case (Cons x xs)
  show ?case
  proof (cases j)
    case 0 with Cons.prems have "c \<notin> set xs" "x = c" by auto
    then show ?thesis using 0 by (simp add: Let_def str_rfind_absent)
  next
    case (Suc k)
    with Cons.prems have "k < length xs" "xs ! k = c" "c \<notin> set (drop (Suc k) xs)" by auto
    with Cons.IH[of k] Suc show ?thesis by (simp add: Let_def)
  qed
qed

lemma first_index_exists: "c \<in> set xs \<Longrightarrow> \<exists>i. first_index xs c i"
proof (induction xs)
  case Nil then show ?case by simp
next
  case (Cons x xs)
  show ?case
  proof (cases "x = c")
    case True
    then have "first_index (x # xs) c 0" by (simp add: first_index_def)
    then show ?thesis ..
  next
    case False
    with Cons obtain i where "first_index xs c i" by auto
    with False have "first_index (x # xs) c (Suc i)" by (simp add: first_index_def)
    then show ?thesis ..
  qed
qed

lemma last_index_exists: "c \<in> set xs \<Longrightarrow> \<exists>j. last_index xs c j"
proof (induction xs)
  case Nil then show ?case by simp
next
  case (Cons x xs)
  show ?case
  proof (cases "c \<in> set xs")
    case True
    with Cons obtain j where "last_index xs c j" by auto
    then have "last_index (x # xs) c (Suc j)" by (simp add: last_index_def)
    then show ?thesis ..
  next
    case False
    with Cons.prems have "last_index (x # xs) c 0" by (simp add: last_index_def)
    then show ?thesis ..
  qed
qed

lemma py_slice_span:
  assumes i: "i < length xs" and j: "j < length xs"
  shows "py_slice xs (int i) (int j + 1) = map ((!) xs) [i..<Suc j]"
proof -
  have "py_slice xs (int i) (int j + 1) = take (Suc j - i) (drop i xs)"
    using i j by (simp add: py_slice_def slice_bound_def Let_def min_def nat_add_distrib)
  also have "\<dots> = map ((!) xs) [i..<Suc j]"
    using i j by (intro nth_equalityI) (auto simp del: upt_Suc)
  finally show ?thesis .
qed

lemma safe_extract_json_absent:
  "CHR ''{'' \<notin> set text \<or> CHR ''}'' \<notin> set text \<Longrightarrow>
   safe_extract_json loads text = Failure text ''No JSON detected''"
  by (auto simp: safe_extract_json_def Let_def str_find_absent str_rfind_absent)

lemma safe_extract_json_span:
  assumes "first_index text CHR ''{'' i" and "last_index text CHR ''}'' j"
  shows "safe_extract_json loads text =
    (case loads (map ((!) text) [i..<Suc j]) of
       Inr v \<Rightarrow> Success v
     | Inl e \<Rightarrow> Failure text (''JSON parse failed: '' @ e))"
proof -
  have s: "str_find text CHR ''{'' = int i" and e: "str_rfind text CHR ''}'' = int j"
    using assms by (simp_all add: str_find_first str_rfind_last)
  have "i < length text" "j < length text"
    using assms by (simp_all add: first_index_def last_index_def)
  then have "py_slice text (int i) (int j + 1) = map ((!) text) [i..<Suc j]"
    by (rule py_slice_span)
  then show ?thesis
    by (simp add: safe_extract_json_def Let_def s e del: upt_Suc)
qed

text \<open>
  C1. For every text: when an opening or a closing brace is missing, the result is the failure
  with the error \<^verbatim>\<open>No JSON detected\<close>; otherwise the first opening brace has an index \<open>i\<close>
  and the last closing brace an index \<open>j\<close>, the parser is applied to the characters at the
  indices \<open>i\<close> to \<open>j\<close> inclusive, and the result is the success with the parsed value, or the
  failure whose error is \<^verbatim>\<open>JSON parse failed: \<close> followed by the text of the exception.
\<close>

theorem extractor_first_last_brace:
  "(CHR ''{'' \<notin> set text \<or> CHR ''}'' \<notin> set text \<longrightarrow>
      safe_extract_json loads text = Failure text ''No JSON detected'')
   \<and> (CHR ''{'' \<in> set text \<and> CHR ''}'' \<in> set text \<longrightarrow>
      (\<exists>i j. first_index text CHR ''{'' i \<and> last_index text CHR ''}'' j))
   \<and> (first_index text CHR ''{'' i \<and> last_index text CHR ''}'' j \<longrightarrow>
      safe_extract_json loads text =
        (case loads (map ((!) text) [i..<Suc j]) of
           Inr v \<Rightarrow> Success v
         | Inl e \<Rightarrow> Failure text (''JSON parse failed: '' @ e)))"
  using safe_extract_json_absent [of "text" loads] safe_extract_json_span [of "text" i j loads]
    first_index_exists [of "CHR ''{''" "text"] last_index_exists [of "CHR ''}''" "text"]
  by blast

theorem extractor_first_last_brace_witness:
  \<open>safe_extract_json reference_loads ''say {"a":1} ok'' = Success (JObject [(''a'', JNumber ''1'')])
   \<and> safe_extract_json reference_loads ''{not json}''
       = Failure ''{not json}'' ''JSON parse failed: Expecting value''
   \<and> safe_extract_json reference_loads ''none'' = Failure ''none'' ''No JSON detected''\<close>
proof -
  have f1: \<open>first_index ''say {"a":1} ok'' CHR ''{'' 4\<close>
    by (simp add: first_index_def)
  have l1: \<open>last_index ''say {"a":1} ok'' CHR ''}'' 10\<close>
    by (simp add: last_index_def)
  have p1: \<open>reference_loads (map ((!) ''say {"a":1} ok'') [4..<Suc 10])
            = Inr (JObject [(''a'', JNumber ''1'')])\<close>
    by code_simp
  have f2: \<open>first_index ''{not json}'' CHR ''{'' 0\<close>
    by (simp add: first_index_def)
  have l2: \<open>last_index ''{not json}'' CHR ''}'' 9\<close>
    by (simp add: last_index_def)
  have p2: \<open>reference_loads (map ((!) ''{not json}'') [0..<Suc 9]) = Inl ''Expecting value''\<close>
    by code_simp
  have a3: \<open>CHR ''{'' \<notin> set ''none'' \<or> CHR ''}'' \<notin> set ''none''\<close>
    by simp
  show ?thesis
    using extractor_first_last_brace [of \<open>''say {"a":1} ok''\<close> reference_loads 4 10]
      extractor_first_last_brace [of \<open>''{not json}''\<close> reference_loads 0 9]
      extractor_first_last_brace [of \<open>''none''\<close> reference_loads]
      f1 l1 p1 f2 l2 p2 a3
    by (simp del: upt_Suc)
qed

lemma span_sublist: "sublist (map ((!) xs) [i..<Suc j]) xs" if "j < length xs"
proof (cases "i \<le> j")
  case True
  have "map ((!) xs) [i..<Suc j] = take (Suc j - i) (drop i xs)"
    using that True by (intro nth_equalityI) (auto simp del: upt_Suc)
  moreover have "xs = take i xs @ take (Suc j - i) (drop i xs) @ drop (Suc j - i) (drop i xs)"
    by (simp only: append_take_drop_id)
  ultimately show ?thesis
    unfolding sublist_def by metis
next
  case False
  then show ?thesis by simp
qed

text \<open>
  C4. For every text, with \<open>res\<close> the result of the extraction: if \<open>ok res\<close>, the report is
  the value that the parser returned for a substring of the text; if not, the field
  \<open>raw\<close> is the text itself and the field \<open>error\<close> is a non-empty reason, one of the two
  that the function writes.
\<close>

theorem extraction_result_invariant:
  "(ok (safe_extract_json loads text) \<longrightarrow>
      (\<exists>s. sublist s text \<and> loads s = Inr (get_report (safe_extract_json loads text))))
   \<and> (\<not> ok (safe_extract_json loads text) \<longrightarrow>
      get_raw (safe_extract_json loads text) = text
      \<and> get_error (safe_extract_json loads text) \<noteq> []
      \<and> (get_error (safe_extract_json loads text) = ''No JSON detected''
         \<or> (\<exists>m. get_error (safe_extract_json loads text) = ''JSON parse failed: '' @ m)))"
proof (cases "CHR ''{'' \<notin> set text \<or> CHR ''}'' \<notin> set text")
  case True
  then show ?thesis by (simp add: safe_extract_json_absent)
next
  case False
  then obtain i j where ij: "first_index text CHR ''{'' i" "last_index text CHR ''}'' j"
    using first_index_exists last_index_exists by blast
  then have "j < length text" by (simp add: last_index_def)
  then have sub: "sublist (map ((!) text) [i..<Suc j]) text" by (rule span_sublist)
  show ?thesis
  proof (cases "loads (map ((!) text) [i..<Suc j])")
    case (Inl m)
    then show ?thesis using ij by (simp add: safe_extract_json_span del: upt_Suc)
  next
    case (Inr v)
    then have "safe_extract_json loads text = Success v"
      using ij by (simp add: safe_extract_json_span del: upt_Suc)
    then show ?thesis using sub Inr by auto
  qed
qed

theorem extraction_result_invariant_witness:
  \<open>ok (safe_extract_json reference_loads ''x{"a":1}'')
   \<and> (\<exists>s. sublist s ''x{"a":1}''
          \<and> reference_loads s = Inr (get_report (safe_extract_json reference_loads ''x{"a":1}'')))
   \<and> \<not> ok (safe_extract_json reference_loads ''{nope}'')
   \<and> get_raw (safe_extract_json reference_loads ''{nope}'') = ''{nope}''
   \<and> get_error (safe_extract_json reference_loads ''{nope}'') \<noteq> []\<close>
proof -
  have a: \<open>ok (safe_extract_json reference_loads ''x{"a":1}'')\<close>
    by code_simp
  have b: \<open>\<not> ok (safe_extract_json reference_loads ''{nope}'')\<close>
    by code_simp
  show ?thesis
    using extraction_result_invariant [of reference_loads \<open>''x{"a":1}''\<close>]
      extraction_result_invariant [of reference_loads \<open>''{nope}''\<close>] a b
    by blast
qed

text \<open>
  C10. When the last closing brace stands before the first opening brace, the slice is
  empty: the parser is applied to the empty text. A parser that rejects the empty text,
  as \<^verbatim>\<open>json.loads\<close> does, then makes the result a failure whose error begins with
  \<^verbatim>\<open>JSON parse failed\<close>, and not the failure \<^verbatim>\<open>No JSON detected\<close>.
\<close>

theorem extractor_reversed_braces:
  assumes "first_index text CHR ''{'' i" and "last_index text CHR ''}'' j" and "j < i"
    and "rejects_empty loads"
  shows "py_slice text (str_find text CHR ''{'') (str_rfind text CHR ''}'' + 1) = []
    \<and> (\<exists>m. loads [] = Inl m
          \<and> safe_extract_json loads text = Failure text (''JSON parse failed: '' @ m))
    \<and> get_error (safe_extract_json loads text) \<noteq> ''No JSON detected''"
proof -
  have empty: "map ((!) text) [i..<Suc j] = []"
    using \<open>j < i\<close> by simp
  have lt: "i < length text" "j < length text"
    using assms by (simp_all add: first_index_def last_index_def)
  have "py_slice text (int i) (int j + 1) = []"
    using py_slice_span [OF lt] empty by simp
  then have slice: "py_slice text (str_find text CHR ''{'') (str_rfind text CHR ''}'' + 1) = []"
    using assms by (simp add: str_find_first str_rfind_last)
  obtain m where m: "loads [] = Inl m"
    using \<open>rejects_empty loads\<close> by (cases "loads []") (simp_all add: rejects_empty_def)
  have res: "safe_extract_json loads text = Failure text (''JSON parse failed: '' @ m)"
    using safe_extract_json_span [OF assms(1,2), of loads] empty m by (simp del: upt_Suc)
  show ?thesis using slice m res by simp
qed

theorem extractor_reversed_braces_witness:
  \<open>safe_extract_json reference_loads ''} then {''
     = Failure ''} then {'' ''JSON parse failed: Expecting value''
   \<and> get_error (safe_extract_json reference_loads ''} then {'') \<noteq> ''No JSON detected''\<close>
proof -
  have f: \<open>first_index ''} then {'' CHR ''{'' 7\<close>
    by (simp add: first_index_def)
  have l: \<open>last_index ''} then {'' CHR ''}'' 0\<close>
    by (simp add: last_index_def)
  have r: "rejects_empty reference_loads"
    by (simp add: rejects_empty_def reference_loads_def)
  have e: "reference_loads [] = Inl ''Expecting value''"
    by (simp add: reference_loads_def)
  show ?thesis
    using extractor_reversed_braces [OF f l _ r] e by auto
qed

text \<open>
  C9. Under the two facts assumed of \<^verbatim>\<open>json.loads\<close>, a successful extraction carries an
  object: the parsed span is not empty, so it runs from the first opening brace to the last
  closing brace. The two lookups of the success path, \<^verbatim>\<open>report.get("email_subject", d)\<close> and
  \<^verbatim>\<open>report.get("email_body", d)\<close>, therefore return a value and do not raise.
\<close>

theorem extracted_report_is_object:
  assumes "rejects_empty loads" and "brace_gives_object loads"
    and "ok (safe_extract_json loads text)"
  shows "is_object (get_report (safe_extract_json loads text))
    \<and> (\<exists>x. dict_get (get_report (safe_extract_json loads text)) ''email_subject'' d1 = Inr x)
    \<and> (\<exists>y. dict_get (get_report (safe_extract_json loads text)) ''email_body'' d2 = Inr y)"
proof -
  have present: "\<not> (CHR ''{'' \<notin> set text \<or> CHR ''}'' \<notin> set text)"
  proof
    assume "CHR ''{'' \<notin> set text \<or> CHR ''}'' \<notin> set text"
    then have "safe_extract_json loads text = Failure text ''No JSON detected''"
      by (rule safe_extract_json_absent)
    with assms(3) show False by simp
  qed
  then obtain i j where ij: "first_index text CHR ''{'' i" "last_index text CHR ''}'' j"
    using first_index_exists last_index_exists by blast
  let ?span = "map ((!) text) [i..<Suc j]"
  have res: "safe_extract_json loads text =
      (case loads ?span of Inr v \<Rightarrow> Success v | Inl e \<Rightarrow> Failure text (''JSON parse failed: '' @ e))"
    using ij by (rule safe_extract_json_span)
  then obtain v where v: "loads ?span = Inr v" "safe_extract_json loads text = Success v"
    using assms(3) by (cases "loads ?span") (simp_all del: upt_Suc)
  have "i \<le> j"
  proof (rule ccontr)
    assume "\<not> i \<le> j"
    then have "?span = []" by simp
    with v(1) assms(1) show False by (simp add: rejects_empty_def)
  qed
  then have "?span = text ! i # map ((!) text) [Suc i..<Suc j]"
    by (simp add: upt_conv_Cons del: upt_Suc)
  then have "?span = CHR ''{'' # map ((!) text) [Suc i..<Suc j]"
    using ij(1) by (simp add: first_index_def)
  with v(1) assms(2) have "is_object v"
    unfolding brace_gives_object_def by metis
  then obtain kvs where "v = JObject kvs"
    by (cases v) (simp_all add: is_object_def)
  with v(2) show ?thesis by (simp add: is_object_def)
qed

lemma reference_loads_brace: "brace_gives_object reference_loads"
  unfolding brace_gives_object_def reference_loads_def is_object_def
  by (auto simp: is_ws_def split: option.splits list.splits if_splits)

theorem extracted_report_is_object_witness:
  \<open>is_object (get_report (safe_extract_json reference_loads ''ok: {"email_subject": "Hi"}''))
   \<and> dict_get (get_report (safe_extract_json reference_loads ''ok: {"email_subject": "Hi"}''))
        ''email_subject'' (JString ''Weekly Sri Lanka Trend Report'') = Inr (JString ''Hi'')
   \<and> dict_get (get_report (safe_extract_json reference_loads ''ok: {"email_subject": "Hi"}''))
        ''email_body'' (JString ''dflt'') = Inr (JString ''dflt'')\<close>
proof -
  have r: "rejects_empty reference_loads"
    by (simp add: rejects_empty_def reference_loads_def)
  have s: \<open>safe_extract_json reference_loads ''ok: {"email_subject": "Hi"}''
            = Success (JObject [(''email_subject'', JString ''Hi'')])\<close>
    by code_simp
  have o: \<open>ok (safe_extract_json reference_loads ''ok: {"email_subject": "Hi"}'')\<close>
    by (simp add: s)
  show ?thesis
    using extracted_report_is_object [OF r reference_loads_brace o] by (simp add: s)
qed

section \<open>Properties of the Orchestrator\<close>

lemma io_bind_Inl: "m t = (Inl ex, t') \<Longrightarrow> io_bind m f t = (Inl ex, t')"
  by (simp add: io_bind_def)

lemma io_bind_Inr: "m t = (Inr x, t') \<Longrightarrow> io_bind m f t = f x t'"
  by (simp add: io_bind_def)

lemma io_bind_assoc: "io_bind (io_bind m f) g = io_bind m (\<lambda>x. io_bind (f x) g)"
  by (rule ext) (simp add: io_bind_def split: prod.splits sum.splits)

lemma io_bind_return: "io_bind (io_return x) f = f x"
  by (rule ext) (simp add: io_bind_def io_return_def)

lemma generate_calls_append: "generate_calls (t @ u) = generate_calls t @ generate_calls u"
  by (induction t rule: generate_calls.induct) simp_all

lemma emails_append: "emails (t @ u) = emails t @ emails u"
  by (induction t rule: emails.induct) simp_all

lemma delivered_append: "delivered (t @ u) = delivered t @ delivered u"
  by (induction t rule: delivered.induct) simp_all

text \<open>What each component appends to the trace.\<close>

lemma fetch_rss_trace: "snd (fetch_rss w url n t) = t @ [FeedParse url]"
  by (simp add: fetch_rss_def io_bind_def io_log_def io_lift_def io_return_def split: sum.splits)

lemma collect_prompt_trace:
  "snd (collect_prompt w t) = t @ [FeedParse GOOGLE_TRENDS_DAILY_LK]
     \<or> snd (collect_prompt w t) = t @ [FeedParse GOOGLE_TRENDS_DAILY_LK, FeedParse GOOGLE_NEWS_LK]"
  by (simp add: collect_prompt_def fetch_rss_def io_bind_def io_log_def io_lift_def io_return_def
      split: sum.splits)

lemma gemini_generate_trace:
  "\<exists>u. snd (gemini_generate w p t) = t @ Generate p # u \<and> generate_calls u = [] \<and> emails u = []
      \<and> delivered u = []"
  by (simp add: gemini_generate_def io_bind_def io_log_def io_lift_def post_def Let_def
      split: sum.splits)

lemma extract_json_trace: "snd (extract_json w v t) = t"
  by (cases v) (simp_all add: io_return_def io_raise_def)

lemma send_email_trace:
  "\<exists>u. snd (send_email w s b t) = t @ SendEmail s b # u \<and> generate_calls u = [] \<and> emails u = []"
  by (simp add: send_email_def io_bind_def io_log_def io_lift_def io_raise_def Let_def
      split: sum.splits option.splits)

text \<open>\<^verbatim>\<open>main\<close> as a sequence of stages.\<close>

lemma main_stages:
  "main w =
     io_bind (collect_prompt w) (\<lambda>prompt.
     io_bind (gemini_generate w prompt) (\<lambda>raw.
     io_bind (extract_json w raw) (\<lambda>parsed.
     io_bind (if \<not> ok parsed
              then io_bind (gemini_generate w (STRICT_PREFIX @ prompt)) (extract_json w)
              else io_return parsed) (notify w))))"
  by (simp add: main_def collect_prompt_def notify_def [abs_def] debug_email_def report_email_def
      io_bind_assoc io_bind_return Let_def cong: if_cong)

lemma extract_json_str:
  "extract_json w (JString raw) t = (Inr (safe_extract_json (json_loads w) raw), t)"
  by (simp add: io_return_def)

lemma main_collect_raises:
  "collect_prompt w t = (Inl ex, t2) \<Longrightarrow> main w t = (Inl ex, t2)"
  by (simp add: main_stages io_bind_Inl)

lemma main_first_raises:
  assumes "collect_prompt w t = (Inr prompt, t2)"
    and "gemini_generate w prompt t2 = (Inl ex, t3)"
  shows "main w t = (Inl ex, t3)"
  using assms by (simp add: main_stages io_bind_Inr io_bind_Inl)

lemma main_first_extract_raises:
  assumes "collect_prompt w t = (Inr prompt, t2)"
    and "gemini_generate w prompt t2 = (Inr raw, t3)"
    and "extract_json w raw t3 = (Inl ex, t3')"
  shows "main w t = (Inl ex, t3')"
  using assms by (simp add: main_stages io_bind_Inr io_bind_Inl)

lemma main_first_ok:
  assumes "collect_prompt w t = (Inr prompt, t2)"
    and "gemini_generate w prompt t2 = (Inr (JString raw), t3)"
    and "ok (safe_extract_json (json_loads w) raw)"
  shows "main w t = report_email w (safe_extract_json (json_loads w) raw) t3"
  using assms
  by (simp add: main_stages io_bind_Inr extract_json_str io_bind_return notify_def)

lemma main_retry:
  assumes "collect_prompt w t = (Inr prompt, t2)"
    and "gemini_generate w prompt t2 = (Inr (JString raw), t3)"
    and "\<not> ok (safe_extract_json (json_loads w) raw)"
  shows "main w t =
    io_bind (gemini_generate w (STRICT_PREFIX @ prompt))
      (\<lambda>raw2. io_bind (extract_json w raw2) (notify w)) t3"
  using assms
  by (simp add: main_stages io_bind_Inr io_bind_return io_bind_assoc)

lemma main_second_raises:
  assumes "collect_prompt w t = (Inr prompt, t2)"
    and "gemini_generate w prompt t2 = (Inr (JString raw), t3)"
    and "\<not> ok (safe_extract_json (json_loads w) raw)"
    and "gemini_generate w (STRICT_PREFIX @ prompt) t3 = (Inl ex, t4)"
  shows "main w t = (Inl ex, t4)"
  using assms(4) by (simp add: main_retry [OF assms(1-3)] io_bind_Inl)

lemma main_second_extract_raises:
  assumes "collect_prompt w t = (Inr prompt, t2)"
    and "gemini_generate w prompt t2 = (Inr (JString raw), t3)"
    and "\<not> ok (safe_extract_json (json_loads w) raw)"
    and "gemini_generate w (STRICT_PREFIX @ prompt) t3 = (Inr raw2, t4)"
    and "extract_json w raw2 t4 = (Inl ex, t4')"
  shows "main w t = (Inl ex, t4')"
  using assms(4,5) by (simp add: main_retry [OF assms(1-3)] io_bind_Inr io_bind_Inl)

lemma main_second_done:
  assumes "collect_prompt w t = (Inr prompt, t2)"
    and "gemini_generate w prompt t2 = (Inr (JString raw), t3)"
    and "\<not> ok (safe_extract_json (json_loads w) raw)"
    and "gemini_generate w (STRICT_PREFIX @ prompt) t3 = (Inr (JString raw2), t4)"
  shows "main w t = notify w (safe_extract_json (json_loads w) raw2) t4"
  using assms(4) by (simp add: main_retry [OF assms(1-3)] io_bind_Inr io_bind_return)

lemma send_email_extends:
  "\<exists>u. snd (send_email w s b t) = t @ u \<and> generate_calls u = []"
proof -
  obtain u where "snd (send_email w s b t) = t @ SendEmail s b # u" "generate_calls u = []"
    using send_email_trace by blast
  then have "snd (send_email w s b t) = t @ (SendEmail s b # u) \<and> generate_calls (SendEmail s b # u) = []"
    by simp
  then show ?thesis ..
qed

lemma report_email_trace:
  "\<exists>u. snd (report_email w p t) = t @ u \<and> generate_calls u = []"
proof (cases "dict_get (get_report p) ''email_subject'' (JString ''Weekly Sri Lanka Trend Report'')")
  case (Inl ex)
  then show ?thesis
    by (simp add: report_email_def Let_def io_bind_def io_lift_def)
next
  case subj: (Inr s)
  show ?thesis
  proof (cases "dict_get (get_report p) ''email_body'' (JString (json_dumps_indent 0 (get_report p)))")
    case (Inl ex)
    with subj show ?thesis
      by (simp add: report_email_def Let_def io_bind_def io_lift_def)
  next
    case (Inr b)
    obtain u where "snd (send_email w s b t) = t @ SendEmail s b # u" "generate_calls u = []"
      using send_email_trace by blast
    with subj Inr show ?thesis
      by (simp add: report_email_def Let_def io_bind_def io_lift_def)
  qed
qed

lemma debug_email_trace:
  "\<exists>u. snd (debug_email w p t) = t @ u \<and> generate_calls u = []"
  unfolding debug_email_def Let_def by (rule send_email_extends)

lemma notify_calls: "generate_calls (snd (notify w p t)) = generate_calls t"
  using report_email_trace [of w p t] debug_email_trace [of w p t]
  by (auto simp: notify_def generate_calls_append)

lemma collect_prompt_calls: "generate_calls (snd (collect_prompt w [])) = []"
  using collect_prompt_trace [of w "[]"] by auto

lemma gemini_generate_calls:
  "generate_calls (snd (gemini_generate w p t)) = generate_calls t @ [p]"
  using gemini_generate_trace [of w p t] by (auto simp: generate_calls_append)

lemma calls_bind:
  "generate_calls (snd (io_bind m f t)) =
     (if isl (fst (m t)) then generate_calls (snd (m t))
      else generate_calls (snd (f (projr (fst (m t))) (snd (m t)))))"
  by (cases "m t") (auto simp: io_bind_def split: sum.splits)

lemma calls_return: "generate_calls (snd (io_return x t)) = generate_calls t"
  by (simp add: io_return_def)

lemma main_calls_bound: "length (generate_calls (snd (main w []))) \<le> 2"
  by (simp add: main_stages calls_bind calls_return collect_prompt_calls gemini_generate_calls
      extract_json_trace notify_calls)

text \<open>
  C2. Every run calls the generator at most twice. When the first call returns a text
  whose extraction succeeds, the calls of the run are that one call, with the prompt; when
  the extraction fails, they are two calls, the second with the prompt behind the
  strict-JSON-only prefix.
\<close>

theorem generator_called_once_or_twice:
  "length (generate_calls (snd (main w []))) \<le> 2
   \<and> (collect_prompt w [] = (Inr prompt, t2)
        \<and> gemini_generate w prompt t2 = (Inr (JString raw), t3)
        \<and> ok (safe_extract_json (json_loads w) raw)
      \<longrightarrow> generate_calls (snd (main w [])) = [prompt])
   \<and> (collect_prompt w [] = (Inr prompt, t2)
        \<and> gemini_generate w prompt t2 = (Inr (JString raw), t3)
        \<and> \<not> ok (safe_extract_json (json_loads w) raw)
      \<longrightarrow> generate_calls (snd (main w [])) = [prompt, STRICT_PREFIX @ prompt])"
proof (intro conjI impI)
  show "length (generate_calls (snd (main w []))) \<le> 2"
    by (rule main_calls_bound)
next
  assume a: "collect_prompt w [] = (Inr prompt, t2)
      \<and> gemini_generate w prompt t2 = (Inr (JString raw), t3)
      \<and> ok (safe_extract_json (json_loads w) raw)"
  have t2: "generate_calls t2 = []"
    using collect_prompt_calls [of w] a by simp
  have t3: "generate_calls t3 = [prompt]"
    using gemini_generate_calls [of w prompt t2] a t2 by simp
  have "main w [] = report_email w (safe_extract_json (json_loads w) raw) t3"
    using a by (intro main_first_ok) auto
  then show "generate_calls (snd (main w [])) = [prompt]"
    using report_email_trace [of w "safe_extract_json (json_loads w) raw" t3] t3
    by (auto simp: generate_calls_append)
next
  assume a: "collect_prompt w [] = (Inr prompt, t2)
      \<and> gemini_generate w prompt t2 = (Inr (JString raw), t3)
      \<and> \<not> ok (safe_extract_json (json_loads w) raw)"
  have t2: "generate_calls t2 = []"
    using collect_prompt_calls [of w] a by simp
  have t3: "generate_calls t3 = [prompt]"
    using gemini_generate_calls [of w prompt t2] a t2 by simp
  have "main w [] =
      io_bind (gemini_generate w (STRICT_PREFIX @ prompt))
        (\<lambda>raw2. io_bind (extract_json w raw2) (notify w)) t3"
    using a by (intro main_retry) auto
  then show "generate_calls (snd (main w [])) = [prompt, STRICT_PREFIX @ prompt]"
    by (simp add: calls_bind gemini_generate_calls extract_json_trace notify_calls t3)
qed

text \<open>Runs in a scripted world.\<close>

lemma scripted_collect:
  "collect_prompt (scripted_world es replies) [] =
     (Inr (build_prompt (datetime_now (scripted_world es replies))
             (map feed_item (py_slice es 0 40)) (map feed_item (py_slice es 0 30))),
      [FeedParse GOOGLE_TRENDS_DAILY_LK, FeedParse GOOGLE_NEWS_LK])"
  by (simp add: collect_prompt_def fetch_rss_def io_bind_def io_log_def io_lift_def io_return_def
      scripted_world_def)

lemma posts_before_append: "posts_before (t @ u) = posts_before t + posts_before u"
  by (simp add: posts_before_def)

lemma scripted_generate:
  assumes "posts_before t < length replies" and "replies ! posts_before t = reply_text s"
  shows "gemini_generate (scripted_world es replies) p t =
    (Inr (JString s),
     t @ [Generate p, HttpPost (generate_url ''gemini-1.5-flash'' ''k'') (generate_payload p) 60])"
  using assms
  by (simp add: gemini_generate_def io_bind_def io_log_def io_lift_def post_def Let_def
      scripted_world_def environ_item_def getenv_def reply_text_def raise_for_status_def
      response_json_def candidate_text_def exn_bind_def posts_before_append posts_before_def)

lemma scripted_generate_status:
  assumes "posts_before t < length replies" and "replies ! posts_before t = reply_status n"
    and "400 \<le> n" and "n < 600"
  shows "gemini_generate (scripted_world es replies) p t =
    (Inl (HTTPError n),
     t @ [Generate p, HttpPost (generate_url ''gemini-1.5-flash'' ''k'') (generate_payload p) 60])"
  using assms
  by (simp add: gemini_generate_def io_bind_def io_log_def io_lift_def post_def Let_def
      scripted_world_def environ_item_def getenv_def reply_status_def raise_for_status_def
      posts_before_append posts_before_def)

lemma scripted_loads: "json_loads (scripted_world es replies) = reference_loads"
  by (simp add: scripted_world_def)

theorem generator_called_once_or_twice_witness:
  \<open>generate_calls (snd (main (scripted_world [] [reply_text ''{"email_subject": "S"}'']) []))
     = [build_prompt (datetime_now (scripted_world [] [])) [] []]
   \<and> generate_calls (snd (main (scripted_world [] [reply_text ''no json'', reply_text ''{}'']) []))
     = [build_prompt (datetime_now (scripted_world [] [])) [] [],
        STRICT_PREFIX @ build_prompt (datetime_now (scripted_world [] [])) [] []]\<close>
proof -
  let ?t2 = "[FeedParse GOOGLE_TRENDS_DAILY_LK, FeedParse GOOGLE_NEWS_LK]"
  let ?p = "build_prompt (datetime_now (scripted_world [] [])) [] []"
  have now: "datetime_now (scripted_world es rs) = datetime_now (scripted_world [] [])" for es rs
    by (simp add: scripted_world_def)
  have c: "collect_prompt (scripted_world [] rs) [] = (Inr ?p, ?t2)" for rs
    by (simp add: scripted_collect py_slice_def now [of "[]" rs])
  have g1: \<open>gemini_generate (scripted_world [] [reply_text ''{"email_subject": "S"}'']) ?p ?t2
      = (Inr (JString ''{"email_subject": "S"}''),
         ?t2 @ [Generate ?p, HttpPost (generate_url ''gemini-1.5-flash'' ''k'') (generate_payload ?p) 60])\<close>
    by (rule scripted_generate) (simp_all add: posts_before_def)
  have k1: \<open>ok (safe_extract_json reference_loads ''{"email_subject": "S"}'')\<close>
    by code_simp
  have g2: \<open>gemini_generate (scripted_world [] [reply_text ''no json'', reply_text ''{}'']) ?p ?t2
      = (Inr (JString ''no json''),
         ?t2 @ [Generate ?p, HttpPost (generate_url ''gemini-1.5-flash'' ''k'') (generate_payload ?p) 60])\<close>
    by (rule scripted_generate) (simp_all add: posts_before_def)
  have k2: \<open>\<not> ok (safe_extract_json reference_loads ''no json'')\<close>
    by code_simp
  show ?thesis
    using generator_called_once_or_twice
        [of \<open>scripted_world [] [reply_text ''{"email_subject": "S"}'']\<close> ?p ?t2
          \<open>''{"email_subject": "S"}''\<close>]
      generator_called_once_or_twice
        [of \<open>scripted_world [] [reply_text ''no json'', reply_text ''{}'']\<close> ?p ?t2 \<open>''no json''\<close>]
      c g1 k1 g2 k2
    by (simp add: scripted_loads)
qed

lemma safe_extract_json_raw:
  "\<not> ok (safe_extract_json loads text) \<Longrightarrow> get_raw (safe_extract_json loads text) = text"
  by (auto simp: safe_extract_json_def Let_def split: sum.splits)

lemma py_slice_take: "py_slice xs 0 (int n) = take n xs"
  by (simp add: py_slice_def slice_bound_def min_def)

lemma collect_prompt_quiet:
  "emails (snd (collect_prompt w [])) = [] \<and> delivered (snd (collect_prompt w [])) = []"
  using collect_prompt_trace [of w "[]"] by auto

lemma gemini_generate_quiet:
  "emails (snd (gemini_generate w p t)) = emails t
   \<and> delivered (snd (gemini_generate w p t)) = delivered t"
  using gemini_generate_trace [of w p t] by (auto simp: emails_append delivered_append)

lemma send_email_emails: "emails (snd (send_email w s b t)) = emails t @ [(s, b)]"
  using send_email_trace [of w s b t] by (auto simp: emails_append)

lemma send_email_delivered:
  "map (\<lambda>m. (subject m, body m)) (delivered (snd (send_email w s b t))) =
     map (\<lambda>m. (subject m, body m)) (delivered t) @ (if fst (send_email w s b t) = Inr () then [(s, b)] else [])"
  by (simp add: send_email_def io_bind_def io_log_def io_lift_def io_raise_def Let_def
      delivered_append split: sum.splits option.splits)

text \<open>
  C3. When the generator answered twice and both extractions failed, the run makes one call
  of \<^verbatim>\<open>send_email\<close>, the debug email: its body is \<^verbatim>\<open>Error: \<close>, the reason of the second
  failure, and the first 8000 characters of the second raw output under the line
  \<^verbatim>\<open>Raw output:\<close>. The run ends with that call, so no report email is sent, and the one
  message that the mail server accepts, if the call returns, is the debug email.
\<close>

theorem debug_email_after_two_failures:
  assumes "collect_prompt w [] = (Inr prompt, t2)"
    and "gemini_generate w prompt t2 = (Inr (JString raw), t3)"
    and "\<not> ok (safe_extract_json (json_loads w) raw)"
    and "gemini_generate w (STRICT_PREFIX @ prompt) t3 = (Inr (JString raw2), t4)"
    and "\<not> ok (safe_extract_json (json_loads w) raw2)"
    and "bdy = ''Error: '' @ get_error (safe_extract_json (json_loads w) raw2)
             @ ''\<newline>\<newline>Raw output:\<newline>'' @ take 8000 raw2"
  shows "emails (snd (main w []))
      = [(JString ''Weekly Trend Agent ERROR (JSON parsing failed)'', JString bdy)]
    \<and> map (\<lambda>m. (subject m, body m)) (delivered (snd (main w [])))
      = (if fst (main w []) = Inr ()
         then [(JString ''Weekly Trend Agent ERROR (JSON parsing failed)'', JString bdy)]
         else [])"
proof -
  let ?parsed = "safe_extract_json (json_loads w) raw2"
  let ?subj = "JString ''Weekly Trend Agent ERROR (JSON parsing failed)''"
  have t2: "emails t2 = []" "delivered t2 = []"
    using collect_prompt_quiet [of w] assms(1) by simp_all
  have t3: "emails t3 = []" "delivered t3 = []"
    using gemini_generate_quiet [of w prompt t2] assms(2) t2 by simp_all
  have t4: "emails t4 = []" "delivered t4 = []"
    using gemini_generate_quiet [of w "STRICT_PREFIX @ prompt" t3] assms(4) t3 by simp_all
  have "main w [] = notify w ?parsed t4"
    using assms(1-4) by (rule main_second_done)
  also have "\<dots> = debug_email w ?parsed t4"
    using assms(5) by (simp add: notify_def)
  also have "\<dots> = send_email w ?subj (JString bdy) t4"
    using assms(5,6) py_slice_take [of raw2 8000]
    by (simp add: debug_email_def Let_def safe_extract_json_raw)
  finally have run: "main w [] = send_email w ?subj (JString bdy) t4" .
  show ?thesis
    unfolding run using send_email_emails [of w ?subj "JString bdy" t4]
      send_email_delivered [of w ?subj "JString bdy" t4] t4
    by simp
qed

theorem debug_email_after_two_failures_witness:
  \<open>emails (snd (main (scripted_world [] [reply_text ''no json'', reply_text ''{still none'']) []))
     = [(JString ''Weekly Trend Agent ERROR (JSON parsing failed)'',
         JString ''Error: No JSON detected\<newline>\<newline>Raw output:\<newline>{still none'')]\<close>
proof -
  let ?w = \<open>scripted_world [] [reply_text ''no json'', reply_text ''{still none'']\<close>
  let ?t2 = "[FeedParse GOOGLE_TRENDS_DAILY_LK, FeedParse GOOGLE_NEWS_LK]"
  let ?p = "build_prompt (datetime_now (scripted_world [] [])) [] []"
  let ?t3 = "?t2 @ [Generate ?p, HttpPost (generate_url ''gemini-1.5-flash'' ''k'') (generate_payload ?p) 60]"
  let ?t4 = "?t3 @ [Generate (STRICT_PREFIX @ ?p),
      HttpPost (generate_url ''gemini-1.5-flash'' ''k'') (generate_payload (STRICT_PREFIX @ ?p)) 60]"
  have now: "datetime_now ?w = datetime_now (scripted_world [] [])"
    by (simp add: scripted_world_def)
  have c: "collect_prompt ?w [] = (Inr ?p, ?t2)"
    by (simp add: scripted_collect py_slice_def now)
  have g1: "gemini_generate ?w ?p ?t2 = (Inr (JString ''no json''), ?t3)"
    by (rule scripted_generate) (simp_all add: posts_before_def)
  have k1: "\<not> ok (safe_extract_json (json_loads ?w) ''no json'')"
    unfolding scripted_loads by code_simp
  have g2: "gemini_generate ?w (STRICT_PREFIX @ ?p) ?t3 = (Inr (JString ''{still none''), ?t4)"
    by (rule scripted_generate) (simp_all add: posts_before_def)
  have k2: "\<not> ok (safe_extract_json (json_loads ?w) ''{still none'')"
    unfolding scripted_loads by code_simp
  have e: "get_error (safe_extract_json (json_loads ?w) ''{still none'') = ''No JSON detected''"
    unfolding scripted_loads by code_simp
  show ?thesis
    using debug_email_after_two_failures [OF c g1 k1 g2 k2 refl] e by simp
qed

text \<open>
  C6. A call of the generator that raises ends the run with that exception, on the first
  attempt and on the second, before any call of \<^verbatim>\<open>send_email\<close>: the trace of the run holds
  no email. The call raises when the request itself raises and when the status of the
  response is from 400 to 599.
\<close>

theorem generation_failure_aborts_run:
  "(collect_prompt w [] = (Inr prompt, t2) \<and> gemini_generate w prompt t2 = (Inl ex, t3)
      \<longrightarrow> main w [] = (Inl ex, t3) \<and> emails t3 = [] \<and> delivered t3 = [])
   \<and> (collect_prompt w [] = (Inr prompt, t2)
       \<and> gemini_generate w prompt t2 = (Inr (JString raw), t3)
       \<and> \<not> ok (safe_extract_json (json_loads w) raw)
       \<and> gemini_generate w (STRICT_PREFIX @ prompt) t3 = (Inl ex, t4)
      \<longrightarrow> main w [] = (Inl ex, t4) \<and> emails t4 = [] \<and> delivered t4 = [])
   \<and> (environ w ''GEMINI_API_KEY'' = Some key
       \<and> requests_post w (posts_before t)
            (generate_url (getenv w ''GEMINI_MODEL'' ''gemini-1.5-flash'') key) (generate_payload p)
          = Inl ex
      \<longrightarrow> fst (gemini_generate w p t) = Inl ex)
   \<and> (environ w ''GEMINI_API_KEY'' = Some key
       \<and> requests_post w (posts_before t)
            (generate_url (getenv w ''GEMINI_MODEL'' ''gemini-1.5-flash'') key) (generate_payload p)
          = Inr r
       \<and> 400 \<le> status_code r \<and> status_code r < 600
      \<longrightarrow> fst (gemini_generate w p t) = Inl (HTTPError (status_code r)))"
proof (intro conjI impI)
  assume a: "collect_prompt w [] = (Inr prompt, t2) \<and> gemini_generate w prompt t2 = (Inl ex, t3)"
  have t2: "emails t2 = []" "delivered t2 = []"
    using collect_prompt_quiet [of w] a by simp_all
  show "main w [] = (Inl ex, t3)"
    using a by (intro main_first_raises) auto
  show "emails t3 = []" "delivered t3 = []"
    using gemini_generate_quiet [of w prompt t2] a t2 by simp_all
next
  assume a: "collect_prompt w [] = (Inr prompt, t2)
       \<and> gemini_generate w prompt t2 = (Inr (JString raw), t3)
       \<and> \<not> ok (safe_extract_json (json_loads w) raw)
       \<and> gemini_generate w (STRICT_PREFIX @ prompt) t3 = (Inl ex, t4)"
  have t2: "emails t2 = []" "delivered t2 = []"
    using collect_prompt_quiet [of w] a by simp_all
  have t3: "emails t3 = []" "delivered t3 = []"
    using gemini_generate_quiet [of w prompt t2] a t2 by simp_all
  show "main w [] = (Inl ex, t4)"
    using a by (intro main_second_raises) auto
  show "emails t4 = []" "delivered t4 = []"
    using gemini_generate_quiet [of w "STRICT_PREFIX @ prompt" t3] a t3 by simp_all
next
  assume "environ w ''GEMINI_API_KEY'' = Some key
       \<and> requests_post w (posts_before t)
            (generate_url (getenv w ''GEMINI_MODEL'' ''gemini-1.5-flash'') key) (generate_payload p)
          = Inl ex"
  then show "fst (gemini_generate w p t) = Inl ex"
    by (simp add: gemini_generate_def io_bind_def io_log_def io_lift_def post_def Let_def
        environ_item_def posts_before_def)
next
  assume "environ w ''GEMINI_API_KEY'' = Some key
       \<and> requests_post w (posts_before t)
            (generate_url (getenv w ''GEMINI_MODEL'' ''gemini-1.5-flash'') key) (generate_payload p)
          = Inr r
       \<and> 400 \<le> status_code r \<and> status_code r < 600"
  then show "fst (gemini_generate w p t) = Inl (HTTPError (status_code r))"
    by (simp add: gemini_generate_def io_bind_def io_log_def io_lift_def post_def Let_def
        environ_item_def raise_for_status_def posts_before_def)
qed

theorem generation_failure_aborts_run_witness:
  \<open>fst (main (scripted_world [] [reply_status 500]) []) = Inl (HTTPError 500)
   \<and> emails (snd (main (scripted_world [] [reply_status 500]) [])) = []
   \<and> fst (main (scripted_world [] [reply_text ''no json'', reply_status 503]) []) = Inl (HTTPError 503)
   \<and> emails (snd (main (scripted_world [] [reply_text ''no json'', reply_status 503]) [])) = []\<close>
proof -
  let ?w1 = \<open>scripted_world [] [reply_status 500]\<close>
  let ?w2 = \<open>scripted_world [] [reply_text ''no json'', reply_status 503]\<close>
  let ?t2 = "[FeedParse GOOGLE_TRENDS_DAILY_LK, FeedParse GOOGLE_NEWS_LK]"
  let ?p = "build_prompt (datetime_now (scripted_world [] [])) [] []"
  let ?t3 = "?t2 @ [Generate ?p, HttpPost (generate_url ''gemini-1.5-flash'' ''k'') (generate_payload ?p) 60]"
  let ?t4 = "?t3 @ [Generate (STRICT_PREFIX @ ?p),
      HttpPost (generate_url ''gemini-1.5-flash'' ''k'') (generate_payload (STRICT_PREFIX @ ?p)) 60]"
  have now: "datetime_now (scripted_world es rs) = datetime_now (scripted_world [] [])" for es rs
    by (simp add: scripted_world_def)
  have c: "collect_prompt (scripted_world [] rs) [] = (Inr ?p, ?t2)" for rs
    by (simp add: scripted_collect py_slice_def now [of "[]" rs])
  have f1: "gemini_generate ?w1 ?p ?t2 = (Inl (HTTPError 500), ?t3)"
    by (rule scripted_generate_status) (simp_all add: posts_before_def)
  have g1: "gemini_generate ?w2 ?p ?t2 = (Inr (JString ''no json''), ?t3)"
    by (rule scripted_generate) (simp_all add: posts_before_def)
  have k1: "\<not> ok (safe_extract_json (json_loads ?w2) ''no json'')"
    unfolding scripted_loads by code_simp
  have f2: "gemini_generate ?w2 (STRICT_PREFIX @ ?p) ?t3 = (Inl (HTTPError 503), ?t4)"
    by (rule scripted_generate_status) (simp_all add: posts_before_def)
  show ?thesis
    using generation_failure_aborts_run [of ?w1 ?p ?t2 "HTTPError 500" ?t3]
      generation_failure_aborts_run [of ?w2 ?p ?t2 "HTTPError 503" ?t3 "''no json''" ?t4]
      c f1 g1 k1 f2
    by simp
qed

lemma scripted_generate_other_status:
  assumes "posts_before t < length replies" and "replies ! posts_before t = reply_status_text n s"
    and "\<not> (400 \<le> n \<and> n < 600)"
  shows "gemini_generate (scripted_world es replies) p t =
    (Inr (JString s),
     t @ [Generate p, HttpPost (generate_url ''gemini-1.5-flash'' ''k'') (generate_payload p) 60])"
  using assms
  by (simp add: gemini_generate_def io_bind_def io_log_def io_lift_def post_def Let_def
      scripted_world_def environ_item_def getenv_def reply_status_text_def raise_for_status_def
      response_json_def candidate_text_def exn_bind_def posts_before_append posts_before_def)

lemma scripted_send_email: "fst (send_email (scripted_world es replies) s b t) = Inr ()"
  by (simp add: send_email_def io_bind_def io_log_def io_lift_def Let_def scripted_world_def
      environ_item_def getenv_def)

text \<open>
  C6 as stated fails on a status that is neither a success nor from 400 to 599. The
  service answers the first request with the status 300 and a well-formed body whose text
  is \<^verbatim>\<open>{}\<close>: \<^verbatim>\<open>raise_for_status\<close> does not raise, the generator returns the text, the run
  ends normally and the report email is sent.
\<close>

theorem generation_status_counterexample:
  "fst (gemini_generate (scripted_world [] [reply_status_text 300 ''{}''])
         (build_prompt (datetime_now (scripted_world [] [])) [] [])
         [FeedParse GOOGLE_TRENDS_DAILY_LK, FeedParse GOOGLE_NEWS_LK])
     = Inr (JString ''{}'')
   \<and> fst (main (scripted_world [] [reply_status_text 300 ''{}'']) []) = Inr ()
   \<and> emails (snd (main (scripted_world [] [reply_status_text 300 ''{}'']) []))
     = [(JString ''Weekly Sri Lanka Trend Report'', JString ''{}'')]"
proof -
  let ?w = "scripted_world [] [reply_status_text 300 ''{}'']"
  let ?t2 = "[FeedParse GOOGLE_TRENDS_DAILY_LK, FeedParse GOOGLE_NEWS_LK]"
  let ?p = "build_prompt (datetime_now (scripted_world [] [])) [] []"
  let ?t3 = "?t2 @ [Generate ?p, HttpPost (generate_url ''gemini-1.5-flash'' ''k'') (generate_payload ?p) 60]"
  have now: "datetime_now ?w = datetime_now (scripted_world [] [])"
    by (simp add: scripted_world_def)
  have c: "collect_prompt ?w [] = (Inr ?p, ?t2)"
    by (simp add: scripted_collect py_slice_def now)
  have g: "gemini_generate ?w ?p ?t2 = (Inr (JString ''{}''), ?t3)"
    by (rule scripted_generate_other_status [where n = 300]) (simp_all add: posts_before_def)
  have s: "safe_extract_json (json_loads ?w) ''{}'' = Success (JObject [])"
    unfolding scripted_loads by code_simp
  have k: "ok (safe_extract_json (json_loads ?w) ''{}'')"
    by (simp add: s)
  have "main ?w [] = report_email ?w (safe_extract_json (json_loads ?w) ''{}'') ?t3"
    using c g k by (rule main_first_ok)
  also have "\<dots> = send_email ?w (JString ''Weekly Sri Lanka Trend Report'') (JString ''{}'') ?t3"
    by (simp add: s report_email_def Let_def io_bind_def io_lift_def)
  finally have run: "main ?w [] =
      send_email ?w (JString ''Weekly Sri Lanka Trend Report'') (JString ''{}'') ?t3" .
  have e: "emails ?t3 = []" by simp
  show ?thesis
    unfolding run using g e
    by (simp add: scripted_send_email send_email_emails)
qed

section \<open>Properties of the Feed Collector\<close>

lemma fetch_rss_result:
  "fst (fetch_rss w url max_items t) =
     (case feedparser_parse w url of
        Inl ex \<Rightarrow> Inl ex
      | Inr feed \<Rightarrow> Inr (map feed_item (py_slice (entries feed) 0 max_items)))"
  by (simp add: fetch_rss_def io_bind_def io_log_def io_lift_def io_return_def split: sum.splits)

lemma py_slice_prefix: "0 \<le> n \<Longrightarrow> py_slice xs 0 n = take (nat n) xs"
  by (simp add: py_slice_def slice_bound_def min_def)

text \<open>
  C5, as the code has it. For \<open>max_items \<ge> 0\<close>, when \<^verbatim>\<open>feedparser.parse\<close> returns a feed,
  flagged as faulty or not, the result is the items of its first \<open>max_items\<close> entries in
  the order of the feed, so at most \<open>max_items\<close> of them, each a dictionary with exactly the
  keys \<^verbatim>\<open>title\<close>, \<^verbatim>\<open>link\<close> and \<^verbatim>\<open>published\<close>; it is empty when the feed has no entries.
\<close>

theorem fetch_rss_first_entries:
  "(feedparser_parse w url = Inr feed \<and> 0 \<le> max_items \<longrightarrow>
      fst (fetch_rss w url max_items t) = Inr (map feed_item (take (nat max_items) (entries feed)))
      \<and> int (length (map feed_item (take (nat max_items) (entries feed)))) \<le> max_items
      \<and> (\<forall>item \<in> set (map feed_item (take (nat max_items) (entries feed))).
            \<exists>a b c. item = JObject [(''title'', JString a), (''link'', JString b),
                                    (''published'', JString c)]))
   \<and> (feedparser_parse w url = Inr feed \<and> entries feed = [] \<longrightarrow>
      fst (fetch_rss w url max_items t) = Inr [])"
proof (intro conjI impI)
  assume a: "feedparser_parse w url = Inr feed \<and> 0 \<le> max_items"
  then show "fst (fetch_rss w url max_items t)
      = Inr (map feed_item (take (nat max_items) (entries feed)))"
    by (simp add: fetch_rss_result py_slice_prefix)
  show "int (length (map feed_item (take (nat max_items) (entries feed)))) \<le> max_items"
  proof -
    have "length (take (nat max_items) (entries feed)) \<le> nat max_items" by simp
    then show ?thesis using a by (simp only: length_map) linarith
  qed
  show "\<forall>item \<in> set (map feed_item (take (nat max_items) (entries feed))).
      \<exists>a b c. item = JObject [(''title'', JString a), (''link'', JString b), (''published'', JString c)]"
    by (auto simp: feed_item_def)
next
  assume "feedparser_parse w url = Inr feed \<and> entries feed = []"
  then show "fst (fetch_rss w url max_items t) = Inr []"
    by (simp add: fetch_rss_result py_slice_def)
qed

theorem fetch_rss_first_entries_witness:
  "fst (fetch_rss flagged_feed_world GOOGLE_NEWS_LK 1 [])
     = Inr [JObject [(''title'', JString ''Storm''), (''link'', JString []), (''published'', JString [])]]
   \<and> fst (fetch_rss (scripted_world [] []) GOOGLE_NEWS_LK 30 []) = Inr []"
proof -
  have f: "feedparser_parse flagged_feed_world GOOGLE_NEWS_LK = Inr flagged_feed"
    by (simp add: flagged_feed_world_def)
  have g: "feedparser_parse (scripted_world [] []) GOOGLE_NEWS_LK = Inr \<lparr>bozo = False, entries = []\<rparr>"
    by (simp add: scripted_world_def)
  show ?thesis
    using fetch_rss_first_entries [of flagged_feed_world GOOGLE_NEWS_LK flagged_feed 1 "[]"]
      fetch_rss_first_entries [of "scripted_world [] []" GOOGLE_NEWS_LK
        "\<lparr>bozo = False, entries = []\<rparr>" 30 "[]"] f g
    by (simp add: flagged_feed_def feed_item_def getattr_def)
qed

text \<open>
  The claim as stated fails twice. The parser of \<open>flagged_feed_world\<close> reports a fault and
  two entries: the result holds both items and is not empty. With \<open>max_items = -1\<close> the slice
  drops the last entry: the result holds one item, which is more than \<open>max_items\<close>.
\<close>

theorem fetch_rss_fault_counterexample:
  "bozo flagged_feed
   \<and> feedparser_parse flagged_feed_world GOOGLE_NEWS_LK = Inr flagged_feed
   \<and> fst (fetch_rss flagged_feed_world GOOGLE_NEWS_LK 30 [])
       = Inr [JObject [(''title'', JString ''Storm''), (''link'', JString []), (''published'', JString [])],
              JObject [(''title'', JString ''Cricket''), (''link'', JString []), (''published'', JString [])]]
   \<and> fst (fetch_rss flagged_feed_world GOOGLE_NEWS_LK 30 []) \<noteq> Inr []
   \<and> fst (fetch_rss flagged_feed_world GOOGLE_NEWS_LK (- 1) [])
       = Inr [JObject [(''title'', JString ''Storm''), (''link'', JString []), (''published'', JString [])]]
   \<and> \<not> int (length [JObject [(''title'', JString ''Storm''), (''link'', JString []),
                             (''published'', JString [])]]) \<le> - 1"
  by (simp add: fetch_rss_result flagged_feed_world_def flagged_feed_def py_slice_def
      slice_bound_def feed_item_def getattr_def)

section \<open>Properties of the Prompt Builder\<close>

text \<open>
  C7. \<^verbatim>\<open>build_prompt\<close> reads the clock itself; in the model the reading is an argument.
  The text depends on the reading through the date only: two invocations with the same
  date, the same trends and the same news return the same text.
\<close>

theorem build_prompt_deterministic:
  assumes "strftime_ymd now1 = strftime_ymd now2"
  shows "build_prompt now1 trends_daily news = build_prompt now2 trends_daily news"
  using assms by (simp add: build_prompt_def)

theorem build_prompt_deterministic_witness:
  "build_prompt \<lparr>year = 2024, month = 3, day = 4, hour = 7, minute = 30, second = 0\<rparr> [] [feed_item []]
   = build_prompt \<lparr>year = 2024, month = 3, day = 4, hour = 23, minute = 59, second = 59\<rparr> [] [feed_item []]"
proof -
  have "strftime_ymd \<lparr>year = 2024, month = 3, day = 4, hour = 7, minute = 30, second = 0\<rparr>
      = strftime_ymd \<lparr>year = 2024, month = 3, day = 4, hour = 23, minute = 59, second = 59\<rparr>"
    by (simp add: strftime_ymd_def)
  then show ?thesis by (rule build_prompt_deterministic)
qed

lemma encode_trends_key:
  \<open>encode_basestring ''google_trends_lk_daily'' = ''"google_trends_lk_daily"''\<close>
  by (simp add: encode_basestring_def escape_char_def)

lemma encode_news_key: \<open>encode_basestring ''google_news_lk'' = ''"google_news_lk"''\<close>
  by (simp add: encode_basestring_def escape_char_def)

lemma dumps_empty_blob:
  \<open>json_dumps (JObject [(''date'', JString today), (''google_trends_lk_daily'', JArray []),
      (''google_news_lk'', JArray [])])
   = ''{'' @ encode_basestring ''date'' @ '': '' @ encode_basestring today
     @ '', '' @ ''"google_trends_lk_daily": []'' @ '', '' @ ''"google_news_lk": []'' @ ''}''\<close>
  by (simp add: join_def encode_trends_key encode_news_key)

text \<open>
  C8. With no trends and no news, the prompt holds the two literal texts
  \<^verbatim>\<open>"google_trends_lk_daily": []\<close> and \<^verbatim>\<open>"google_news_lk": []\<close>.
\<close>

theorem build_prompt_empty_feeds:
  \<open>sublist ''"google_trends_lk_daily": []'' (build_prompt now [] [])
   \<and> sublist ''"google_news_lk": []'' (build_prompt now [] [])\<close>
proof -
  let ?today = "strftime_ymd now"
  let ?pre = \<open>PROMPT_HEAD @ ?today @ PROMPT_SCHEMA @ ''{'' @ encode_basestring ''date'' @ '': ''
    @ encode_basestring ?today @ '', ''\<close>
  have p: \<open>build_prompt now [] [] =
      ?pre @ ''"google_trends_lk_daily": []'' @ '', '' @ ''"google_news_lk": []'' @ ''}'' @ [CHR 0x0A]\<close>
    unfolding build_prompt_def Let_def dumps_empty_blob by (simp only: append_assoc)
  have \<open>build_prompt now [] [] =
      ?pre @ ''"google_trends_lk_daily": []'' @ ('', '' @ ''"google_news_lk": []'' @ ''}'' @ [CHR 0x0A])\<close>
    by (simp only: p)
  then have a: \<open>sublist ''"google_trends_lk_daily": []'' (build_prompt now [] [])\<close>
    unfolding sublist_def by blast
  have \<open>build_prompt now [] [] =
      (?pre @ ''"google_trends_lk_daily": []'' @ '', '') @ ''"google_news_lk": []'' @ (''}'' @ [CHR 0x0A])\<close>
    by (simp only: p append_assoc)
  then have b: \<open>sublist ''"google_news_lk": []'' (build_prompt now [] [])\<close>
    unfolding sublist_def by blast
  show ?thesis using a b ..
qed

end
